theory Spec2Isabelle
  imports Main
begin

section \<open>The host: spawned processes, timers and the editor's user interface\<close>

text \<open>
  The extension talks to three collaborators: \<^verbatim>\<open>child_process.spawn\<close>, the timer queue
  (\<^verbatim>\<open>setTimeout\<close>) and the editor API (\<^verbatim>\<open>vscode.window\<close>). Every call the code makes to
  one of them is appended, in program order, to a log of effects. The log is the only
  state that is threaded through the functions below.
\<close>

datatype js_error = Error string

record spawn_options =
  detached :: bool
  stdio :: string

datatype effect =
    Spawn string "string list" spawn_options
  | SetTimeout nat
  | ShowErrorMessage string
  | ShowInformationMessage string
  | CreateTerminal string string
  | TerminalShow bool

text \<open>
  What the operating system does with one \<^verbatim>\<open>spawn(cmd, args, ...)\<close> is not decided by the
  program. Either the call throws synchronously, or it returns a child process. For a
  child, the only callbacks the code registers are the \<^verbatim>\<open>'error'\<close> listener and the timer;
  the event loop runs callbacks one at a time, so an \<^verbatim>\<open>'error'\<close> event is delivered either
  before the timer callback, or after it, or never.
\<close>

datatype error_timing =
    NoError
  | ErrorBeforeTimeout js_error
  | ErrorAfterTimeout js_error

datatype spawn_result = Throws js_error | Child error_timing

type_synonym env = "string \<Rightarrow> string list \<Rightarrow> spawn_result"

datatype event = ErrorEvent js_error | TimeoutFired

fun callbacks :: "error_timing \<Rightarrow> event list" where
  "callbacks NoError = [TimeoutFired]"
| "callbacks (ErrorBeforeTimeout err) = [ErrorEvent err, TimeoutFired]"
| "callbacks (ErrorAfterTimeout err) = [TimeoutFired, ErrorEvent err]"

subsection \<open>Promises\<close>

text \<open>
  A promise settles once: \<^verbatim>\<open>resolve\<close> and \<^verbatim>\<open>reject\<close> on a settled promise do nothing.
  \<^verbatim>\<open>await\<close> on a promise that never settles never resumes, which is the value \<open>None\<close>.
\<close>

datatype promise_state = Pending | Fulfilled bool | Rejected js_error

definition resolve :: "bool \<Rightarrow> promise_state \<Rightarrow> promise_state" where
  "resolve v p = (if p = Pending then Fulfilled v else p)"

definition reject :: "js_error \<Rightarrow> promise_state \<Rightarrow> promise_state" where
  "reject err p = (if p = Pending then Rejected err else p)"

fun await :: "promise_state \<Rightarrow> (js_error + bool) option" where
  "await Pending = None"
| "await (Fulfilled v) = Some (Inr v)"
| "await (Rejected err) = Some (Inl err)"

section \<open>Launch attempt: \<^verbatim>\<open>spawnPromise\<close>\<close>

text \<open>
  One launch attempt owns a promise and a child. \<open>unrefd\<close> records that
  \<^verbatim>\<open>child.unref()\<close> has been called (an exception from it is swallowed by the code).
\<close>

record attempt =
  promise :: promise_state
  unrefd :: bool

definition new_attempt :: attempt where
  "new_attempt = \<lparr>promise = Pending, unrefd = False\<rparr>"

text \<open>
  The two callbacks of the executor: \<^verbatim>\<open>child.on('error', reject)\<close> and the timer's
  \<^verbatim>\<open>() => { try { child.unref(); } catch (e) { } resolve(true); }\<close>.
\<close>

fun deliver :: "attempt \<Rightarrow> event \<Rightarrow> attempt" where
  "deliver a (ErrorEvent err) = a\<lparr>promise := reject err (promise a)\<rparr>"
| "deliver a TimeoutFired = (a\<lparr>unrefd := True\<rparr>)\<lparr>promise := resolve True (promise a)\<rparr>"

definition run_callbacks :: "attempt \<Rightarrow> event list \<Rightarrow> attempt" where
  "run_callbacks a evs = foldl deliver a evs"

text \<open>
  \<^verbatim>\<open>spawnPromise(cmd, args)\<close>: the spawn call and the timer are logged when the executor
  runs. The callbacks touch only the promise and the child of their own attempt, so the
  attempt is returned in the state it reaches once they have all been delivered;
  \<^verbatim>\<open>await\<close> reads how the promise settled, which the first callback decides. The delay
  of the timer is the literal \<^verbatim>\<open>200\<close>.
\<close>

definition spawnPromise :: "env \<Rightarrow> string \<Rightarrow> string list \<Rightarrow> effect list \<Rightarrow> attempt \<times> effect list" where
  "spawnPromise env cmd args log =
     (let log1 = log @ [Spawn cmd args \<lparr>detached = True, stdio = ''ignore''\<rparr>] in
      case env cmd args of
        Throws err \<Rightarrow> (new_attempt\<lparr>promise := reject err (promise new_attempt)\<rparr>, log1)
      | Child timing \<Rightarrow>
          (run_callbacks new_attempt (callbacks timing), log1 @ [SetTimeout 200]))"

section \<open>Platform cascade resolver: \<^verbatim>\<open>openSystemTerminal\<close>\<close>

type_synonym candidate = "string \<times> string list"

text \<open>The local array \<^verbatim>\<open>candidates\<close> of the Linux branch, with its template literals.\<close>

definition candidates :: "string \<Rightarrow> candidate list" where
  "candidates targetDir =
     [(''gnome-terminal'', [''--'', ''bash'', ''-lc'', ''cd \"'' @ targetDir @ ''\"; exec bash'']),
      (''konsole'', [''--workdir'', targetDir]),
      (''xfce4-terminal'', [''--working-directory'', targetDir]),
      (''x-terminal-emulator'', [''-e'', ''bash -c 'cd \"'' @ targetDir @ ''\"; exec bash'' @ [CHR 0x27]]),
      (''xterm'', [''-e'', ''bash -lc 'cd \"'' @ targetDir @ ''\"; exec bash'' @ [CHR 0x27]])]"

text \<open>The \<^verbatim>\<open>for (const [cmd, args] of candidates)\<close> loop with its try/catch.\<close>

fun for_candidates :: "env \<Rightarrow> candidate list \<Rightarrow> effect list \<Rightarrow> (bool \<times> effect list) option" where
  "for_candidates env [] log = Some (False, log)"
| "for_candidates env ((cmd, args) # rest) log =
     (let (a, log1) = spawnPromise env cmd args log in
      case await (promise a) of
        None \<Rightarrow> None
      | Some (Inr v) \<Rightarrow> Some (True, log1)
      | Some (Inl e) \<Rightarrow> for_candidates env rest log1)"

text \<open>
  \<^verbatim>\<open>openSystemTerminal(targetDir)\<close>; \<open>plt\<close> is the value of \<^verbatim>\<open>platform()\<close>. The macOS and
  Windows branches are nested try/catch blocks, the Linux branch is the loop.
\<close>

definition openSystemTerminal :: "env \<Rightarrow> string \<Rightarrow> string \<Rightarrow> effect list \<Rightarrow> (bool \<times> effect list) option" where
  "openSystemTerminal env plt targetDir log =
     (if plt = ''darwin'' then
        (let (a1, log1) = spawnPromise env ''open'' [''-a'', ''Terminal'', targetDir] log in
         case await (promise a1) of
           None \<Rightarrow> None
         | Some (Inr v) \<Rightarrow> Some (True, log1)
         | Some (Inl e) \<Rightarrow>
             (let (a2, log2) = spawnPromise env ''open'' [''-a'', ''iTerm'', targetDir] log1 in
              case await (promise a2) of
                None \<Rightarrow> None
              | Some (Inr v) \<Rightarrow> Some (True, log2)
              | Some (Inl e2) \<Rightarrow> Some (False, log2)))
      else if plt = ''win32'' then
        (let (a1, log1) = spawnPromise env ''wt'' [''-d'', targetDir] log in
         case await (promise a1) of
           None \<Rightarrow> None
         | Some (Inr v) \<Rightarrow> Some (True, log1)
         | Some (Inl e) \<Rightarrow>
             (let (a2, log2) =
                    spawnPromise env ''cmd''
                      [''/c'', ''start'', ''cmd.exe'', ''/K'', ''cd /d \"'' @ targetDir @ ''\"''] log1 in
              case await (promise a2) of
                None \<Rightarrow> None
              | Some (Inr v) \<Rightarrow> Some (True, log2)
              | Some (Inl e2) \<Rightarrow> Some (False, log2)))
      else if plt = ''linux'' then for_candidates env (candidates targetDir) log
      else Some (False, log))"

section \<open>The command of the cascading variant\<close>

record uri =
  fsPath :: string

record text_editor =
  document_uri :: uri

text \<open>
  \<^verbatim>\<open>openIntegratedTerminal(targetDir, label = 'Open File Path')\<close>: creates the terminal
  with \<^verbatim>\<open>{ name: label, cwd: targetDir }\<close> and shows it.
\<close>

definition openIntegratedTerminal :: "string \<Rightarrow> string option \<Rightarrow> effect list \<Rightarrow> effect list" where
  "openIntegratedTerminal targetDir label log =
     (let name = (case label of None \<Rightarrow> ''Open File Path'' | Some l \<Rightarrow> l) in
      log @ [CreateTerminal name targetDir, TerminalShow True])"

text \<open>
  The handler that \<^verbatim>\<open>activate\<close> registers for \<^verbatim>\<open>openFileInDefaultTerminal.open\<close>.
  \<open>resource\<close> is the argument of the command (\<open>None\<close> when it is undefined),
  \<open>activeTextEditor\<close> is \<^verbatim>\<open>vscode.window.activeTextEditor\<close>, and \<open>dirname\<close> is the
  function of that name of the \<^verbatim>\<open>path\<close> module, which is not part of this repository.
  The dash of the terminal's label is U+2014, here as its three UTF-8 bytes.
\<close>

definition activate_open ::
  "(string \<Rightarrow> string) \<Rightarrow> env \<Rightarrow> string \<Rightarrow> uri option \<Rightarrow> text_editor option \<Rightarrow> effect list
     \<Rightarrow> effect list option" where
  "activate_open dirname env plt resource activeTextEditor log =
     (let fileUri =
            (case resource of
               Some r \<Rightarrow> Some r
             | None \<Rightarrow>
                 (case activeTextEditor of
                    Some editor \<Rightarrow> Some (document_uri editor)
                  | None \<Rightarrow> None)) in
      case fileUri of
        None \<Rightarrow> Some (log @ [ShowErrorMessage ''No file selected to open in terminal.''])
      | Some u \<Rightarrow>
          (let filePath = fsPath u;
               targetDir = dirname filePath in
           case openSystemTerminal env plt targetDir log of
             None \<Rightarrow> None
           | Some (ok, log1) \<Rightarrow>
               if \<not> ok then
                 Some (openIntegratedTerminal targetDir
                         (Some (''Terminal '' @ [CHR 0xE2, CHR 0x80, CHR 0x94] @ '' '' @ targetDir)) log1
                       @ [ShowInformationMessage
                            ''Opened VS Code integrated terminal (system terminal not found).''])
               else Some log1))"

section \<open>The single-candidate variant\<close>

text \<open>\<^verbatim>\<open>openAlacrittyTmux(targetDir)\<close>: the same executor, for one fixed program.\<close>

definition openAlacrittyTmux :: "env \<Rightarrow> string \<Rightarrow> effect list \<Rightarrow> attempt \<times> effect list" where
  "openAlacrittyTmux env targetDir log =
     (let log1 = log @ [Spawn ''alacritty'' [''--working-directory'', targetDir]
                          \<lparr>detached = True, stdio = ''ignore''\<rparr>] in
      case env ''alacritty'' [''--working-directory'', targetDir] of
        Throws err \<Rightarrow> (new_attempt\<lparr>promise := reject err (promise new_attempt)\<rparr>, log1)
      | Child timing \<Rightarrow>
          (run_callbacks new_attempt (callbacks timing), log1 @ [SetTimeout 200]))"

text \<open>The handler registered by \<^verbatim>\<open>activate\<close> in this variant.\<close>

definition activate_open_alacritty ::
  "(string \<Rightarrow> string) \<Rightarrow> env \<Rightarrow> uri option \<Rightarrow> text_editor option \<Rightarrow> effect list
     \<Rightarrow> effect list option" where
  "activate_open_alacritty dirname env resource activeTextEditor log =
     (let fileUri =
            (case resource of
               Some r \<Rightarrow> Some r
             | None \<Rightarrow>
                 (case activeTextEditor of
                    Some editor \<Rightarrow> Some (document_uri editor)
                  | None \<Rightarrow> None)) in
      case fileUri of
        None \<Rightarrow> Some (log @ [ShowErrorMessage ''No file selected.''])
      | Some u \<Rightarrow>
          (let filePath = fsPath u;
               targetDir = dirname filePath;
               (a, log1) = openAlacrittyTmux env targetDir log in
           case await (promise a) of
             None \<Rightarrow> None
           | Some (Inr v) \<Rightarrow> Some log1
           | Some (Inl e) \<Rightarrow>
               Some (log1 @ [ShowErrorMessage ''Failed to open Alacritty (is it installed?).''])))"

section \<open>Reading a log\<close>

fun spawns :: "effect list \<Rightarrow> candidate list" where
  "spawns [] = []"
| "spawns (Spawn cmd args opts # es) = (cmd, args) # spawns es"
| "spawns (e # es) = spawns es"

fun timeouts :: "effect list \<Rightarrow> nat list" where
  "timeouts [] = []"
| "timeouts (SetTimeout d # es) = d # timeouts es"
| "timeouts (e # es) = timeouts es"

fun error_messages :: "effect list \<Rightarrow> string list" where
  "error_messages [] = []"
| "error_messages (ShowErrorMessage m # es) = m # error_messages es"
| "error_messages (e # es) = error_messages es"

fun integrated_terminals :: "effect list \<Rightarrow> (string \<times> string) list" where
  "integrated_terminals [] = []"
| "integrated_terminals (CreateTerminal name cwd # es) = (name, cwd) # integrated_terminals es"
| "integrated_terminals (e # es) = integrated_terminals es"

text \<open>
  The outcome of one launch attempt of a candidate, as \<^verbatim>\<open>await spawnPromise(cmd, args)\<close>
  gives it: \<open>True\<close> when the promise is fulfilled, \<open>False\<close> when it is rejected.
\<close>

definition launch_ok :: "env \<Rightarrow> candidate \<Rightarrow> bool" where
  "launch_ok env c =
     (case await (promise (fst (spawnPromise env (fst c) (snd c) []))) of
        Some (Inr v) \<Rightarrow> True
      | _ \<Rightarrow> False)"

text \<open>
  The effects of one launch attempt, the candidates a cascade over a list gets to (those
  that fail, up to and including the first that launches), and whether \<^verbatim>\<open>spawn\<close>
  returned a child for a candidate.
\<close>

definition attempt_effects :: "env \<Rightarrow> candidate \<Rightarrow> effect list" where
  "attempt_effects env c = snd (spawnPromise env (fst c) (snd c) [])"

definition tried :: "env \<Rightarrow> candidate list \<Rightarrow> candidate list" where
  "tried env cs =
     takeWhile (\<lambda>c. \<not> launch_ok env c) cs @ take 1 (dropWhile (\<lambda>c. \<not> launch_ok env c) cs)"

definition returns_child :: "env \<Rightarrow> candidate \<Rightarrow> bool" where
  "returns_child env c = (case env (fst c) (snd c) of Child timing \<Rightarrow> True | Throws err \<Rightarrow> False)"

text \<open>
  The candidate table of the specification (section 4.2), per platform identifier, in
  order of preference; the identifiers are the values of \<^verbatim>\<open>os.platform()\<close> the code
  compares with.
\<close>

definition candidate_table :: "string \<Rightarrow> string \<Rightarrow> candidate list" where
  "candidate_table plt dir =
     (if plt = ''darwin'' then
        [(''open'', [''-a'', ''Terminal'', dir]), (''open'', [''-a'', ''iTerm'', dir])]
      else if plt = ''win32'' then
        [(''wt'', [''-d'', dir]),
         (''cmd'', [''/c'', ''start'', ''cmd.exe'', ''/K'', ''cd /d \"'' @ dir @ ''\"''])]
      else if plt = ''linux'' then candidates dir
      else [])"

text \<open>
  Two environments for running the code on concrete inputs: one in which no program is
  found (every spawn reports \<^verbatim>\<open>ENOENT\<close> before the timer), and one in which exactly
  one program is installed.
\<close>

definition not_found :: env where
  "not_found = (\<lambda>cmd args. Child (ErrorBeforeTimeout (Error ''ENOENT'')))"

definition only_installed :: "string \<Rightarrow> env" where
  "only_installed prog =
     (\<lambda>cmd args. if cmd = prog then Child NoError
                 else Child (ErrorBeforeTimeout (Error ''ENOENT'')))"

text \<open>The candidates the resolver spawns, in order, when every launch fails.\<close>

definition attempted :: "string \<Rightarrow> string \<Rightarrow> candidate list" where
  "attempted plt dir =
     (case openSystemTerminal not_found plt dir [] of
        None \<Rightarrow> []
      | Some (r, log') \<Rightarrow> spawns log')"

text \<open>
  The part of a shell command between its first double quote and the next one: what a
  shell reads as the quoted word.
\<close>

definition quoted_region :: "string \<Rightarrow> string" where
  "quoted_region s =
     takeWhile (\<lambda>c. c \<noteq> CHR 0x22) (drop 1 (dropWhile (\<lambda>c. c \<noteq> CHR 0x22) s))"

text \<open>
  Whether the single launch attempt of the single-candidate variant succeeds, as
  \<^verbatim>\<open>await openAlacrittyTmux(targetDir)\<close> gives it.
\<close>

definition alacritty_ok :: "env \<Rightarrow> string \<Rightarrow> bool" where
  "alacritty_ok env targetDir =
     (case await (promise (fst (openAlacrittyTmux env targetDir []))) of
        Some (Inr v) \<Rightarrow> True
      | _ \<Rightarrow> False)"

text \<open>
  For running the handlers on concrete paths: the parent of an absolute POSIX path that
  has no trailing slash and at least two components, which is what \<^verbatim>\<open>path.dirname\<close>
  returns for such a path. The theorems below hold for every \<open>dirname\<close>.
\<close>

definition parent_of :: "string \<Rightarrow> string" where
  "parent_of p = rev (drop 1 (dropWhile (\<lambda>c. c \<noteq> CHR ''/'') (rev p)))"

section \<open>Facts about promises, launch attempts and the loop\<close>

lemma settled_stays:
  "promise a \<noteq> Pending \<Longrightarrow> promise (foldl deliver a evs) = promise a"
proof (induction evs arbitrary: a)
  case Nil
  then show ?case by simp
next
  case (Cons ev evs)
  then show ?case by (cases ev) (simp_all add: resolve_def reject_def)
qed

lemma run_callbacks_first:
  "promise (run_callbacks new_attempt evs) =
     (case evs of
        [] \<Rightarrow> Pending
      | ErrorEvent err # rest \<Rightarrow> Rejected err
      | TimeoutFired # rest \<Rightarrow> Fulfilled True)"
proof (cases evs)
  case Nil
  then show ?thesis by (simp add: run_callbacks_def new_attempt_def)
next
  case (Cons ev rest)
  then show ?thesis
    by (cases ev) (simp_all add: run_callbacks_def new_attempt_def settled_stays resolve_def reject_def)
qed

lemma unrefd_foldl:
  "unrefd (foldl deliver a evs) = (unrefd a \<or> TimeoutFired \<in> set evs)"
proof (induction evs arbitrary: a)
  case Nil
  then show ?case by simp
next
  case (Cons ev evs)
  then show ?case by (cases ev) auto
qed

lemma await_spawnPromise:
  "await (promise (fst (spawnPromise env cmd args log))) =
     (case env cmd args of
        Throws err \<Rightarrow> Some (Inl err)
      | Child NoError \<Rightarrow> Some (Inr True)
      | Child (ErrorBeforeTimeout err) \<Rightarrow> Some (Inl err)
      | Child (ErrorAfterTimeout err) \<Rightarrow> Some (Inr True))"
proof (cases "env cmd args")
  case (Throws err)
  then show ?thesis by (simp add: spawnPromise_def new_attempt_def reject_def)
next
  case (Child timing)
  then show ?thesis by (cases timing) (simp_all add: spawnPromise_def run_callbacks_first)
qed

lemma spawns_append: "spawns (xs @ ys) = spawns xs @ spawns ys"
  by (induction xs rule: spawns.induct) simp_all

lemma timeouts_append: "timeouts (xs @ ys) = timeouts xs @ timeouts ys"
  by (induction xs rule: timeouts.induct) simp_all

lemma error_messages_append: "error_messages (xs @ ys) = error_messages xs @ error_messages ys"
  by (induction xs rule: error_messages.induct) simp_all

lemma integrated_terminals_append:
  "integrated_terminals (xs @ ys) = integrated_terminals xs @ integrated_terminals ys"
  by (induction xs rule: integrated_terminals.induct) simp_all

lemma snd_spawnPromise:
  "snd (spawnPromise env cmd args log) =
     log @ Spawn cmd args \<lparr>detached = True, stdio = ''ignore''\<rparr> #
       (case env cmd args of Throws err \<Rightarrow> [] | Child timing \<Rightarrow> [SetTimeout 200])"
  by (simp add: spawnPromise_def Let_def split: spawn_result.splits)

lemma for_candidates_step:
  "for_candidates env ((cmd, args) # rest) log =
     (if launch_ok env (cmd, args) then Some (True, snd (spawnPromise env cmd args log))
      else for_candidates env rest (snd (spawnPromise env cmd args log)))"
  by (simp add: launch_ok_def await_spawnPromise split_beta Let_def
      split: spawn_result.splits error_timing.splits)


lemma openSystemTerminal_cascade:
  "openSystemTerminal env plt dir log = for_candidates env (candidate_table plt dir) log"
proof -
  consider "plt = ''darwin''" | "plt = ''win32''" | "plt = ''linux''"
    | "plt \<noteq> ''darwin''" "plt \<noteq> ''win32''" "plt \<noteq> ''linux''"
    by blast
  then show ?thesis
  proof cases
    case 1
    then show ?thesis
      by (simp add: openSystemTerminal_def candidate_table_def split_beta Let_def
          split: option.split sum.split)
  next
    case 2
    then show ?thesis
      by (simp add: openSystemTerminal_def candidate_table_def split_beta Let_def
          split: option.split sum.split)
  next
    case 3
    then show ?thesis
      by (simp add: openSystemTerminal_def candidate_table_def)
  next
    case 4
    then show ?thesis
      by (simp add: openSystemTerminal_def candidate_table_def)
  qed
qed

lemma spawns_spawnPromise:
  "spawns (snd (spawnPromise env cmd args log)) = spawns log @ [(cmd, args)]"
  by (simp add: snd_spawnPromise spawns_append split: spawn_result.split)

lemma spawnPromise_log:
  "snd (spawnPromise env cmd args log) = log @ attempt_effects env (cmd, args)"
  by (simp add: attempt_effects_def snd_spawnPromise)

lemma for_candidates_eq:
  "for_candidates env cs log =
     Some (\<exists>c\<in>set cs. launch_ok env c, log @ concat (map (attempt_effects env) (tried env cs)))"
proof (induction cs arbitrary: log)
  case Nil
  then show ?case by (simp add: tried_def)
next
  case (Cons c cs)
  obtain cmd args where c: "c = (cmd, args)" by (cases c)
  show ?case
  proof (cases "launch_ok env (cmd, args)")
    case True
    then show ?thesis
      by (simp add: c for_candidates_step spawnPromise_log tried_def del: for_candidates.simps)
  next
    case False
    then show ?thesis
      by (simp add: c for_candidates_step spawnPromise_log tried_def Cons.IH
          del: for_candidates.simps)
  qed
qed

lemma openSystemTerminal_eq:
  "openSystemTerminal env plt dir log =
     Some (\<exists>c\<in>set (candidate_table plt dir). launch_ok env c,
           log @ concat (map (attempt_effects env) (tried env (candidate_table plt dir))))"
  by (simp add: openSystemTerminal_cascade for_candidates_eq)

lemma spawns_attempts: "spawns (concat (map (attempt_effects env) cs)) = cs"
  by (induction cs) (simp_all add: spawns_append attempt_effects_def snd_spawnPromise
      split: spawn_result.split)

lemma timeouts_attempts:
  "timeouts (concat (map (attempt_effects env) cs)) = map (\<lambda>c. 200) (filter (returns_child env) cs)"
  by (induction cs) (simp_all add: timeouts_append attempt_effects_def snd_spawnPromise
      returns_child_def split: spawn_result.split)

lemma error_messages_attempts: "error_messages (concat (map (attempt_effects env) cs)) = []"
  by (induction cs) (simp_all add: error_messages_append attempt_effects_def snd_spawnPromise
      split: spawn_result.split)

lemma integrated_terminals_attempts:
  "integrated_terminals (concat (map (attempt_effects env) cs)) = []"
  by (induction cs) (simp_all add: integrated_terminals_append attempt_effects_def
      snd_spawnPromise split: spawn_result.split)

lemma tried_first_success:
  assumes "n < length cs" "launch_ok env (cs ! n)" "\<forall>i<n. \<not> launch_ok env (cs ! i)"
  shows "tried env cs = take (Suc n) cs"
proof -
  have tw: "takeWhile (\<lambda>c. \<not> launch_ok env c) cs = take n cs"
    using assms by (intro takeWhile_eq_take_P_nth) auto
  have "dropWhile (\<lambda>c. \<not> launch_ok env c) cs = drop n cs"
    using assms(1) by (simp add: dropWhile_eq_drop tw)
  then have "take 1 (dropWhile (\<lambda>c. \<not> launch_ok env c) cs) = [cs ! n]"
    using assms(1) by (simp add: take_Suc_conv_app_nth Cons_nth_drop_Suc [symmetric])
  with tw show ?thesis
    using assms(1) by (simp add: tried_def take_Suc_conv_app_nth)
qed

lemma tried_all_fail:
  assumes "\<forall>c\<in>set cs. \<not> launch_ok env c"
  shows "tried env cs = cs"
  using assms by (induction cs) (simp_all add: tried_def)

lemma openAlacrittyTmux_eq:
  "openAlacrittyTmux env dir log = spawnPromise env ''alacritty'' [''--working-directory'', dir] log"
  by (simp add: openAlacrittyTmux_def spawnPromise_def)

lemma alacritty_ok_eq:
  "alacritty_ok env dir = launch_ok env (''alacritty'', [''--working-directory'', dir])"
  by (simp add: alacritty_ok_def launch_ok_def openAlacrittyTmux_eq)

lemma activate_open_context:
  assumes "resource = Some u \<or> (resource = None \<and> activeTextEditor = Some editor \<and> document_uri editor = u)"
  shows "activate_open dirname env plt resource activeTextEditor log =
     (case openSystemTerminal env plt (dirname (fsPath u)) log of
        None \<Rightarrow> None
      | Some (ok, log1) \<Rightarrow>
          if ok then Some log1
          else Some (log1 @
                 [CreateTerminal (''Terminal '' @ [CHR 0xE2, CHR 0x80, CHR 0x94] @ '' '' @ dirname (fsPath u))
                    (dirname (fsPath u)),
                  TerminalShow True,
                  ShowInformationMessage ''Opened VS Code integrated terminal (system terminal not found).'']))"
  using assms
  by (auto simp: activate_open_def openIntegratedTerminal_def Let_def split: option.splits)

lemma activate_open_alacritty_context:
  assumes "resource = Some u \<or> (resource = None \<and> activeTextEditor = Some editor \<and> document_uri editor = u)"
  shows "activate_open_alacritty dirname env resource activeTextEditor log =
     (case await (promise (fst (openAlacrittyTmux env (dirname (fsPath u)) log))) of
        None \<Rightarrow> None
      | Some (Inr v) \<Rightarrow> Some (snd (openAlacrittyTmux env (dirname (fsPath u)) log))
      | Some (Inl e) \<Rightarrow>
          Some (snd (openAlacrittyTmux env (dirname (fsPath u)) log)
                @ [ShowErrorMessage ''Failed to open Alacritty (is it installed?).'']))"
  using assms
  by (auto simp: activate_open_alacritty_def Let_def split_beta split: option.splits sum.splits)

lemma parent_of_example:
  "parent_of ''/home/me/projects/foo/src/index.js'' = ''/home/me/projects/foo/src''"
  by (simp add: parent_of_def)

lemma not_found_darwin:
  "openSystemTerminal not_found ''darwin'' ''/home/me/projects/foo/src'' [] =
     Some (False,
       [Spawn ''open'' [''-a'', ''Terminal'', ''/home/me/projects/foo/src''] \<lparr>detached = True, stdio = ''ignore''\<rparr>,
        SetTimeout 200,
        Spawn ''open'' [''-a'', ''iTerm'', ''/home/me/projects/foo/src''] \<lparr>detached = True, stdio = ''ignore''\<rparr>,
        SetTimeout 200])"
  by (simp add: openSystemTerminal_def spawnPromise_def not_found_def run_callbacks_def
      new_attempt_def reject_def resolve_def)

lemma takeWhile_upto_quote:
  "takeWhile (\<lambda>c. c \<noteq> q) (d @ q # post) = takeWhile (\<lambda>c. c \<noteq> q) d"
  by (induction d) simp_all

lemma quoted_region_eq:
  assumes "q = CHR 0x22" "q \<notin> set pre"
  shows "quoted_region (pre @ q # d @ q # post) = takeWhile (\<lambda>c. c \<noteq> CHR 0x22) d"
proof -
  from assms have "dropWhile (\<lambda>c. c \<noteq> CHR 0x22) (pre @ q # d @ q # post) = q # d @ q # post"
    by (auto simp: dropWhile_append3)
  with assms(1) show ?thesis
    using takeWhile_upto_quote [of q d post] by (simp add: quoted_region_def)
qed

section \<open>The launch attempt\<close>

text \<open>
  Claim C3. A launch attempt fails exactly when a spawn failure is observed before the
  decision window elapses: \<^verbatim>\<open>spawn\<close> throws, or the \<^verbatim>\<open>'error'\<close> event is delivered before
  the timer callback. It succeeds (the promise is fulfilled with \<^verbatim>\<open>true\<close>) exactly when the
  timer callback runs with no error delivered before it. Whatever is delivered after the
  first callback changes nothing: an error after the timer leaves the promise fulfilled.
  The timer callback unreferences the child, so the child of a successful attempt is
  unreferenced when the window expires.
\<close>

theorem launch_attempt_outcome:
  "((\<exists>err. await (promise (fst (spawnPromise env cmd args log))) = Some (Inl err)) \<longleftrightarrow>
      (\<exists>err. env cmd args = Throws err \<or> env cmd args = Child (ErrorBeforeTimeout err)))
   \<and> ((await (promise (fst (spawnPromise env cmd args log))) = Some (Inr True)) \<longleftrightarrow>
      (env cmd args = Child NoError \<or> (\<exists>err. env cmd args = Child (ErrorAfterTimeout err))))
   \<and> (unrefd (fst (spawnPromise env cmd args log)) \<longleftrightarrow> (\<exists>timing. env cmd args = Child timing))
   \<and> promise (run_callbacks new_attempt (ErrorEvent err # later)) = Rejected err
   \<and> promise (run_callbacks new_attempt (TimeoutFired # later)) = Fulfilled True
   \<and> unrefd (deliver a TimeoutFired)
   \<and> (unrefd (run_callbacks new_attempt evs) \<longleftrightarrow> TimeoutFired \<in> set evs)"
proof -
  have failed: "(\<exists>err. await (promise (fst (spawnPromise env cmd args log))) = Some (Inl err)) \<longleftrightarrow>
      (\<exists>err. env cmd args = Throws err \<or> env cmd args = Child (ErrorBeforeTimeout err))"
    by (auto simp: await_spawnPromise split: spawn_result.splits error_timing.splits)
  have succeeded: "(await (promise (fst (spawnPromise env cmd args log))) = Some (Inr True)) \<longleftrightarrow>
      (env cmd args = Child NoError \<or> (\<exists>err. env cmd args = Child (ErrorAfterTimeout err)))"
    by (auto simp: await_spawnPromise split: spawn_result.splits error_timing.splits)
  have unref: "unrefd (fst (spawnPromise env cmd args log)) \<longleftrightarrow> (\<exists>timing. env cmd args = Child timing)"
  proof (cases "env cmd args")
    case (Throws e)
    then show ?thesis by (simp add: spawnPromise_def new_attempt_def)
  next
    case (Child timing)
    then show ?thesis
      by (cases timing) (simp_all add: spawnPromise_def run_callbacks_def unrefd_foldl)
  qed
  have first_error: "promise (run_callbacks new_attempt (ErrorEvent err # later)) = Rejected err"
    by (simp add: run_callbacks_first)
  have first_timeout: "promise (run_callbacks new_attempt (TimeoutFired # later)) = Fulfilled True"
    by (simp add: run_callbacks_first)
  have at_expiry: "unrefd (deliver a TimeoutFired)"
    by simp
  have unref_iff: "unrefd (run_callbacks new_attempt evs) \<longleftrightarrow> TimeoutFired \<in> set evs"
    by (simp add: run_callbacks_def unrefd_foldl new_attempt_def)
  from failed succeeded unref first_error first_timeout at_expiry unref_iff
  show ?thesis by blast
qed

section \<open>The resolver\<close>

text \<open>
  Claim C1. The resolver drives the candidate table of its platform in order, one launch
  attempt per candidate. If the N-th candidate is the first whose launch succeeds, the
  resolver returns true and the spawn calls it has made are exactly the first N candidates
  of the table, in order. If no candidate launches, the resolver returns false and the
  spawn calls are exactly the whole table, each candidate once, in order. (For a platform
  identifier outside the known set the table is empty.)
\<close>

theorem cascade_first_success_or_exhaustion:
  "\<exists>r log'. openSystemTerminal env plt dir log = Some (r, log') \<and>
     (\<forall>N. 1 \<le> N \<and> N \<le> length (candidate_table plt dir) \<and>
          launch_ok env (candidate_table plt dir ! (N - 1)) \<and>
          (\<forall>i < N - 1. \<not> launch_ok env (candidate_table plt dir ! i))
        \<longrightarrow> r \<and> spawns log' = spawns log @ take N (candidate_table plt dir)) \<and>
     ((\<forall>c \<in> set (candidate_table plt dir). \<not> launch_ok env c)
        \<longrightarrow> \<not> r \<and> spawns log' = spawns log @ candidate_table plt dir)"
proof -
  let ?T = "candidate_table plt dir"
  let ?log' = "log @ concat (map (attempt_effects env) (tried env ?T))"
  have run: "openSystemTerminal env plt dir log = Some (\<exists>c\<in>set ?T. launch_ok env c, ?log')"
    by (rule openSystemTerminal_eq)
  have sp: "spawns ?log' = spawns log @ tried env ?T"
    by (simp add: spawns_append spawns_attempts)
  have first: "(\<exists>c\<in>set ?T. launch_ok env c) \<and> spawns ?log' = spawns log @ take N ?T"
    if N: "1 \<le> N \<and> N \<le> length ?T \<and> launch_ok env (?T ! (N - 1)) \<and>
           (\<forall>i < N - 1. \<not> launch_ok env (?T ! i))" for N
  proof -
    from N have lt: "N - 1 < length ?T" by arith
    from N have "tried env ?T = take (Suc (N - 1)) ?T"
      by (intro tried_first_success lt) auto
    moreover from N have "Suc (N - 1) = N" by arith
    moreover from lt N have "\<exists>c\<in>set ?T. launch_ok env c"
      using nth_mem by blast
    ultimately show ?thesis using sp by simp
  qed
  have none: "\<not> (\<exists>c\<in>set ?T. launch_ok env c) \<and> spawns ?log' = spawns log @ ?T"
    if "\<forall>c \<in> set ?T. \<not> launch_ok env c"
    using that sp by (simp add: tried_all_fail)
  from run first none show ?thesis by blast
qed

theorem cascade_first_success_or_exhaustion_witness:
  "(1 \<le> (2::nat) \<and> 2 \<le> length (candidate_table ''linux'' ''/home/me/projects/foo/src'') \<and>
    launch_ok (only_installed ''konsole'') (candidate_table ''linux'' ''/home/me/projects/foo/src'' ! 1) \<and>
    \<not> launch_ok (only_installed ''konsole'') (candidate_table ''linux'' ''/home/me/projects/foo/src'' ! 0)) \<and>
   (\<exists>log'. openSystemTerminal (only_installed ''konsole'') ''linux'' ''/home/me/projects/foo/src'' []
             = Some (True, log') \<and>
           spawns log' =
             [(''gnome-terminal'', [''--'', ''bash'', ''-lc'', ''cd \"/home/me/projects/foo/src\"; exec bash'']),
              (''konsole'', [''--workdir'', ''/home/me/projects/foo/src''])]) \<and>
   \<not> launch_ok not_found (''open'', [''-a'', ''Terminal'', ''/tmp'']) \<and>
   \<not> launch_ok not_found (''open'', [''-a'', ''iTerm'', ''/tmp'']) \<and>
   (\<exists>log'. openSystemTerminal not_found ''darwin'' ''/tmp'' [] = Some (False, log') \<and>
           spawns log' = [(''open'', [''-a'', ''Terminal'', ''/tmp'']), (''open'', [''-a'', ''iTerm'', ''/tmp''])])"
proof -
  let ?E = "only_installed ''konsole''"
  let ?D = "''/home/me/projects/foo/src''"
  let ?T = "candidate_table ''linux'' ?D"
  have T: "?T =
     [(''gnome-terminal'', [''--'', ''bash'', ''-lc'', ''cd \"/home/me/projects/foo/src\"; exec bash'']),
      (''konsole'', [''--workdir'', ?D]),
      (''xfce4-terminal'', [''--working-directory'', ?D]),
      (''x-terminal-emulator'', [''-e'', ''bash -c 'cd \"/home/me/projects/foo/src\"; exec bash'' @ [CHR 0x27]]),
      (''xterm'', [''-e'', ''bash -lc 'cd \"/home/me/projects/foo/src\"; exec bash'' @ [CHR 0x27]])]"
    by (simp add: candidate_table_def candidates_def)
  have ok1: "launch_ok ?E (?T ! 1)"
    by (simp add: T launch_ok_def await_spawnPromise only_installed_def)
  have no0: "\<not> launch_ok ?E (?T ! 0)"
    by (simp add: T launch_ok_def await_spawnPromise only_installed_def)
  have hyp: "1 \<le> (2::nat) \<and> 2 \<le> length ?T \<and> launch_ok ?E (?T ! (2 - 1)) \<and>
             (\<forall>i < 2 - 1. \<not> launch_ok ?E (?T ! i))"
    using ok1 no0 by (simp add: T)
  from cascade_first_success_or_exhaustion [of ?E "''linux''" ?D "[]"]
  obtain r log' where run: "openSystemTerminal ?E ''linux'' ?D [] = Some (r, log')"
    and first: "\<forall>N. 1 \<le> N \<and> N \<le> length ?T \<and> launch_ok ?E (?T ! (N - 1)) \<and>
                   (\<forall>i < N - 1. \<not> launch_ok ?E (?T ! i))
                 \<longrightarrow> r \<and> spawns log' = spawns [] @ take N ?T"
    by blast
  from first hyp have "r \<and> spawns log' = spawns [] @ take 2 ?T" by blast
  with run have linux: "\<exists>log'. openSystemTerminal ?E ''linux'' ?D [] = Some (True, log') \<and>
           spawns log' = take 2 ?T"
    by auto
  let ?M = "candidate_table ''darwin'' ''/tmp''"
  have M: "?M = [(''open'', [''-a'', ''Terminal'', ''/tmp'']), (''open'', [''-a'', ''iTerm'', ''/tmp''])]"
    by (simp add: candidate_table_def)
  have nf1: "\<not> launch_ok not_found (''open'', [''-a'', ''Terminal'', ''/tmp''])"
    by (simp add: launch_ok_def await_spawnPromise not_found_def)
  have nf2: "\<not> launch_ok not_found (''open'', [''-a'', ''iTerm'', ''/tmp''])"
    by (simp add: launch_ok_def await_spawnPromise not_found_def)
  have all: "\<forall>c \<in> set ?M. \<not> launch_ok not_found c"
    using nf1 nf2 by (simp add: M)
  from cascade_first_success_or_exhaustion [of not_found "''darwin''" "''/tmp''" "[]"]
  obtain r2 log2 where run2: "openSystemTerminal not_found ''darwin'' ''/tmp'' [] = Some (r2, log2)"
    and none: "(\<forall>c \<in> set ?M. \<not> launch_ok not_found c) \<longrightarrow> \<not> r2 \<and> spawns log2 = spawns [] @ ?M"
    by blast
  from none all have "\<not> r2 \<and> spawns log2 = spawns [] @ ?M" by blast
  with run2 have darwin: "\<exists>log'. openSystemTerminal not_found ''darwin'' ''/tmp'' [] = Some (False, log') \<and>
           spawns log' = ?M"
    by auto
  from linux darwin ok1 no0 nf1 nf2 show ?thesis
    by (simp add: T M)
qed

text \<open>
  Claim C2. For a platform identifier that is none of \<^verbatim>\<open>darwin\<close>, \<^verbatim>\<open>win32\<close> and
  \<^verbatim>\<open>linux\<close>, the resolver returns false and leaves the log as it was: no spawn call is
  made.
\<close>

theorem unknown_platform_returns_false:
  assumes "plt \<noteq> ''darwin''" and "plt \<noteq> ''win32''" and "plt \<noteq> ''linux''"
  shows "openSystemTerminal env plt targetDir log = Some (False, log)"
  using assms by (simp add: openSystemTerminal_def)

theorem unknown_platform_returns_false_witness:
  "''freebsd'' \<noteq> ''darwin'' \<and> ''freebsd'' \<noteq> ''win32'' \<and> ''freebsd'' \<noteq> ''linux'' \<and>
   openSystemTerminal (only_installed ''xterm'') ''freebsd'' ''/home/me/projects/foo/src'' [] = Some (False, []) \<and>
   spawns [] = []"
  using unknown_platform_returns_false
          [of "''freebsd''" "only_installed ''xterm''" "''/home/me/projects/foo/src''" "[]"]
  by simp

text \<open>
  Claim C4. The candidates the resolver spawns when every launch fails are, for every
  target directory: on \<^verbatim>\<open>darwin\<close>, \<^verbatim>\<open>open -a Terminal dir\<close> then \<^verbatim>\<open>open -a iTerm dir\<close>;
  on \<^verbatim>\<open>win32\<close>, \<^verbatim>\<open>wt -d dir\<close> then \<^verbatim>\<open>cmd /c start cmd.exe /K\<close> with a \<^verbatim>\<open>cd /d\<close> command;
  on \<^verbatim>\<open>linux\<close>, the five emulators gnome-terminal, konsole, xfce4-terminal,
  x-terminal-emulator and xterm, with a working-directory flag or an inline shell command
  that changes to the directory and execs a shell. The target directory stands in the
  argument list of every candidate. In every environment, what the resolver spawns is an
  initial part of this table: the candidates that fail and the first that launches.
\<close>

theorem candidate_table_per_platform:
  "attempted ''darwin'' dir =
     [(''open'', [''-a'', ''Terminal'', dir]),
      (''open'', [''-a'', ''iTerm'', dir])]
   \<and> attempted ''win32'' dir =
     [(''wt'', [''-d'', dir]),
      (''cmd'', [''/c'', ''start'', ''cmd.exe'', ''/K'', ''cd /d \"'' @ dir @ ''\"''])]
   \<and> attempted ''linux'' dir =
     [(''gnome-terminal'', [''--'', ''bash'', ''-lc'', ''cd \"'' @ dir @ ''\"; exec bash'']),
      (''konsole'', [''--workdir'', dir]),
      (''xfce4-terminal'', [''--working-directory'', dir]),
      (''x-terminal-emulator'', [''-e'', ''bash -c 'cd \"'' @ dir @ ''\"; exec bash'' @ [CHR 0x27]]),
      (''xterm'', [''-e'', ''bash -lc 'cd \"'' @ dir @ ''\"; exec bash'' @ [CHR 0x27]])]
   \<and> (\<exists>log'. openSystemTerminal env plt dir [] = Some (\<exists>c\<in>set (attempted plt dir). launch_ok env c, log')
          \<and> spawns log' = tried env (attempted plt dir))"
proof -
  have nf: "\<not> launch_ok not_found c" for c
    by (simp add: launch_ok_def await_spawnPromise not_found_def)
  have att: "attempted p dir = candidate_table p dir" for p
    by (simp add: attempted_def openSystemTerminal_eq spawns_attempts tried_all_fail nf)
  have run: "\<exists>log'. openSystemTerminal env plt dir [] = Some (\<exists>c\<in>set (attempted plt dir). launch_ok env c, log')
          \<and> spawns log' = tried env (attempted plt dir)"
    by (simp add: att openSystemTerminal_eq spawns_attempts)
  show ?thesis
    using run by (simp add: att candidate_table_def candidates_def)
qed

text \<open>
  Claim C9. The three Linux candidates that pass an inline shell command (gnome-terminal,
  x-terminal-emulator, xterm) and the \<^verbatim>\<open>cmd\<close> fallback on Windows put the target directory
  between two double quotes exactly as it is, with no escaping. The word a shell reads
  between the first double quote and the next one is therefore the directory only up to
  its first double quote: for a directory that contains a double quote it differs from
  the directory.
\<close>

theorem shell_commands_interpolate_unescaped:
  "last (snd (attempted ''linux'' dir ! 0)) = ''cd \"'' @ dir @ ''\"; exec bash''
   \<and> last (snd (attempted ''linux'' dir ! 3)) = ''bash -c 'cd \"'' @ dir @ ''\"; exec bash'' @ [CHR 0x27]
   \<and> last (snd (attempted ''linux'' dir ! 4)) = ''bash -lc 'cd \"'' @ dir @ ''\"; exec bash'' @ [CHR 0x27]
   \<and> last (snd (attempted ''win32'' dir ! 1)) = ''cd /d \"'' @ dir @ ''\"''
   \<and> quoted_region (last (snd (attempted ''linux'' dir ! 0))) = takeWhile (\<lambda>c. c \<noteq> CHR 0x22) dir
   \<and> quoted_region (last (snd (attempted ''linux'' dir ! 3))) = takeWhile (\<lambda>c. c \<noteq> CHR 0x22) dir
   \<and> quoted_region (last (snd (attempted ''linux'' dir ! 4))) = takeWhile (\<lambda>c. c \<noteq> CHR 0x22) dir
   \<and> quoted_region (last (snd (attempted ''win32'' dir ! 1))) = takeWhile (\<lambda>c. c \<noteq> CHR 0x22) dir
   \<and> (\<exists>d. CHR 0x22 \<in> set d
          \<and> quoted_region (last (snd (attempted ''linux'' d ! 0))) \<noteq> d
          \<and> quoted_region (last (snd (attempted ''linux'' d ! 3))) \<noteq> d
          \<and> quoted_region (last (snd (attempted ''linux'' d ! 4))) \<noteq> d
          \<and> quoted_region (last (snd (attempted ''win32'' d ! 1))) \<noteq> d)"
proof -
  have nf: "\<not> launch_ok not_found c" for c
    by (simp add: launch_ok_def await_spawnPromise not_found_def)
  have att: "attempted p d = candidate_table p d" for p d
    by (simp add: attempted_def openSystemTerminal_eq spawns_attempts tried_all_fail nf)
  have g: "last (snd (attempted ''linux'' d ! 0)) = ''cd '' @ CHR 0x22 # d @ CHR 0x22 # ''; exec bash''" for d
    by (simp add: att candidate_table_def candidates_def)
  have x: "last (snd (attempted ''linux'' d ! 3)) =
             ''bash -c 'cd '' @ CHR 0x22 # d @ CHR 0x22 # (''; exec bash'' @ [CHR 0x27])" for d
    by (simp add: att candidate_table_def candidates_def)
  have t: "last (snd (attempted ''linux'' d ! 4)) =
             ''bash -lc 'cd '' @ CHR 0x22 # d @ CHR 0x22 # (''; exec bash'' @ [CHR 0x27])" for d
    by (simp add: att candidate_table_def candidates_def)
  have w: "last (snd (attempted ''win32'' d ! 1)) = ''cd /d '' @ CHR 0x22 # d @ CHR 0x22 # []" for d
    by (simp add: att candidate_table_def)
  have qg: "quoted_region (last (snd (attempted ''linux'' d ! 0))) = takeWhile (\<lambda>c. c \<noteq> CHR 0x22) d" for d
    unfolding g by (rule quoted_region_eq) simp_all
  have qx: "quoted_region (last (snd (attempted ''linux'' d ! 3))) = takeWhile (\<lambda>c. c \<noteq> CHR 0x22) d" for d
    unfolding x by (rule quoted_region_eq) simp_all
  have qt: "quoted_region (last (snd (attempted ''linux'' d ! 4))) = takeWhile (\<lambda>c. c \<noteq> CHR 0x22) d" for d
    unfolding t by (rule quoted_region_eq) simp_all
  have qw: "quoted_region (last (snd (attempted ''win32'' d ! 1))) = takeWhile (\<lambda>c. c \<noteq> CHR 0x22) d" for d
    unfolding w by (rule quoted_region_eq) simp_all
  have ex: "\<exists>d. CHR 0x22 \<in> set d
          \<and> quoted_region (last (snd (attempted ''linux'' d ! 0))) \<noteq> d
          \<and> quoted_region (last (snd (attempted ''linux'' d ! 3))) \<noteq> d
          \<and> quoted_region (last (snd (attempted ''linux'' d ! 4))) \<noteq> d
          \<and> quoted_region (last (snd (attempted ''win32'' d ! 1))) \<noteq> d"
    unfolding qg qx qt qw by (rule exI [of _ "''/tmp/a\"b''"]) simp
  have g': "last (snd (attempted ''linux'' dir ! 0)) = ''cd \"'' @ dir @ ''\"; exec bash''"
    unfolding g by simp
  have x': "last (snd (attempted ''linux'' dir ! 3)) = ''bash -c 'cd \"'' @ dir @ ''\"; exec bash'' @ [CHR 0x27]"
    unfolding x by simp
  have t': "last (snd (attempted ''linux'' dir ! 4)) = ''bash -lc 'cd \"'' @ dir @ ''\"; exec bash'' @ [CHR 0x27]"
    unfolding t by simp
  have w': "last (snd (attempted ''win32'' dir ! 1)) = ''cd /d \"'' @ dir @ ''\"''"
    unfolding w by simp
  from g' x' t' w' qg [of dir] qx [of dir] qt [of dir] qw [of dir] ex
  show ?thesis by blast
qed

text \<open>
  Claim C8. Every launch attempt arms its timer with the same delay, 200: in a run of
  the resolver, on any platform and in any environment, the timers armed are one of 200
  for each spawn call that returned a child, and the same holds for the single-candidate
  variant and for one \<^verbatim>\<open>spawnPromise\<close> call with any command and arguments. The delay
  depends on nothing.
\<close>

theorem one_fixed_decision_window:
  "(\<exists>r log'. openSystemTerminal env plt dir [] = Some (r, log') \<and>
       timeouts log' = map (\<lambda>c. 200) (filter (returns_child env) (spawns log')))
   \<and> timeouts (snd (openAlacrittyTmux env dir [])) =
       map (\<lambda>c. 200) (filter (returns_child env) (spawns (snd (openAlacrittyTmux env dir []))))
   \<and> timeouts (snd (spawnPromise env cmd args [])) =
       (if returns_child env (cmd, args) then [200] else [])"
  by (simp add: openSystemTerminal_eq timeouts_attempts spawns_attempts openAlacrittyTmux_eq
      snd_spawnPromise returns_child_def split: spawn_result.split)

section \<open>The commands\<close>

text \<open>
  Claim C6. When the command gets no resource and there is no active editor, it shows an
  error message and returns: the log gains that one message and no spawn call, in the
  cascading variant and in the single-candidate variant.
\<close>

theorem no_directory_context_aborts:
  "activate_open dirname env plt None None log =
     Some (log @ [ShowErrorMessage ''No file selected to open in terminal.''])
   \<and> spawns (log @ [ShowErrorMessage ''No file selected to open in terminal.'']) = spawns log
   \<and> activate_open_alacritty dirname env None None log =
     Some (log @ [ShowErrorMessage ''No file selected.''])
   \<and> spawns (log @ [ShowErrorMessage ''No file selected.'']) = spawns log"
  by (simp add: activate_open_def activate_open_alacritty_def spawns_append)

text \<open>
  Claim C5. When a directory context exists and the resolver returns false on the target
  directory, the command creates the integrated terminal with that directory as its
  working directory, shows it, and shows an information message; no error message is
  shown, neither for the exhaustion nor for any failed candidate.
\<close>

theorem exhaustion_falls_back_to_integrated_terminal:
  assumes "resource = Some u \<or> (resource = None \<and> activeTextEditor = Some editor \<and> document_uri editor = u)"
    and "openSystemTerminal env plt (dirname (fsPath u)) log = Some (False, log1)"
  shows "\<exists>log'. activate_open dirname env plt resource activeTextEditor log = Some log' \<and>
           log' = log1 @
             [CreateTerminal (''Terminal '' @ [CHR 0xE2, CHR 0x80, CHR 0x94] @ '' '' @ dirname (fsPath u))
                (dirname (fsPath u)),
              TerminalShow True,
              ShowInformationMessage ''Opened VS Code integrated terminal (system terminal not found).''] \<and>
           integrated_terminals log' = integrated_terminals log @
             [(''Terminal '' @ [CHR 0xE2, CHR 0x80, CHR 0x94] @ '' '' @ dirname (fsPath u), dirname (fsPath u))] \<and>
           error_messages log' = error_messages log"
proof -
  from assms(2) have log1: "log1 = log @ concat (map (attempt_effects env) (tried env (candidate_table plt (dirname (fsPath u)))))"
    by (simp add: openSystemTerminal_eq)
  show ?thesis
    using assms(2)
    by (simp add: activate_open_context [OF assms(1)] error_messages_append
        integrated_terminals_append)
       (simp add: log1 error_messages_append integrated_terminals_append
         error_messages_attempts integrated_terminals_attempts)
qed

theorem exhaustion_falls_back_to_integrated_terminal_witness:
  "openSystemTerminal not_found ''darwin'' (parent_of (fsPath \<lparr>fsPath = ''/home/me/projects/foo/src/index.js''\<rparr>)) [] =
     Some (False,
       [Spawn ''open'' [''-a'', ''Terminal'', ''/home/me/projects/foo/src''] \<lparr>detached = True, stdio = ''ignore''\<rparr>,
        SetTimeout 200,
        Spawn ''open'' [''-a'', ''iTerm'', ''/home/me/projects/foo/src''] \<lparr>detached = True, stdio = ''ignore''\<rparr>,
        SetTimeout 200])
   \<and> activate_open parent_of not_found ''darwin''
        (Some \<lparr>fsPath = ''/home/me/projects/foo/src/index.js''\<rparr>) None [] =
     Some
       [Spawn ''open'' [''-a'', ''Terminal'', ''/home/me/projects/foo/src''] \<lparr>detached = True, stdio = ''ignore''\<rparr>,
        SetTimeout 200,
        Spawn ''open'' [''-a'', ''iTerm'', ''/home/me/projects/foo/src''] \<lparr>detached = True, stdio = ''ignore''\<rparr>,
        SetTimeout 200,
        CreateTerminal (''Terminal '' @ [CHR 0xE2, CHR 0x80, CHR 0x94] @ '' /home/me/projects/foo/src'')
          ''/home/me/projects/foo/src'',
        TerminalShow True,
        ShowInformationMessage ''Opened VS Code integrated terminal (system terminal not found).'']"
proof -
  let ?u = "\<lparr>fsPath = ''/home/me/projects/foo/src/index.js''\<rparr>"
  let ?ed = "\<lparr>document_uri = ?u\<rparr>"
  have ctx: "Some ?u = Some ?u \<or> (Some ?u = None \<and> None = Some ?ed \<and> document_uri ?ed = ?u)"
    by simp
  have fail: "openSystemTerminal not_found ''darwin'' (parent_of (fsPath ?u)) [] =
     Some (False,
       [Spawn ''open'' [''-a'', ''Terminal'', ''/home/me/projects/foo/src''] \<lparr>detached = True, stdio = ''ignore''\<rparr>,
        SetTimeout 200,
        Spawn ''open'' [''-a'', ''iTerm'', ''/home/me/projects/foo/src''] \<lparr>detached = True, stdio = ''ignore''\<rparr>,
        SetTimeout 200])"
    by (simp add: parent_of_example not_found_darwin)
  from exhaustion_falls_back_to_integrated_terminal [where dirname = parent_of, OF ctx fail] fail
  show ?thesis by (simp add: parent_of_example)
qed

text \<open>
  Claim C10. With a resource, or else with the document of the active editor, the
  directory handed to \<^verbatim>\<open>openSystemTerminal\<close> (and to the integrated terminal), and in the
  other variant to \<^verbatim>\<open>openAlacrittyTmux\<close>, is \<^verbatim>\<open>dirname\<close> of the \<^verbatim>\<open>fsPath\<close> of that URI.
  Nothing in the handlers asks whether the path is a file or a directory, so for a
  selected directory the terminal opens at its parent.
\<close>

theorem target_directory_is_dirname:
  assumes "resource = Some u \<or> (resource = None \<and> activeTextEditor = Some editor \<and> document_uri editor = u)"
  shows "activate_open dirname env plt resource activeTextEditor log =
     (case openSystemTerminal env plt (dirname (fsPath u)) log of
        None \<Rightarrow> None
      | Some (ok, log1) \<Rightarrow>
          if ok then Some log1
          else Some (log1 @
                 [CreateTerminal (''Terminal '' @ [CHR 0xE2, CHR 0x80, CHR 0x94] @ '' '' @ dirname (fsPath u))
                    (dirname (fsPath u)),
                  TerminalShow True,
                  ShowInformationMessage ''Opened VS Code integrated terminal (system terminal not found).'']))
   \<and> activate_open_alacritty dirname env resource activeTextEditor log =
     (case await (promise (fst (openAlacrittyTmux env (dirname (fsPath u)) log))) of
        None \<Rightarrow> None
      | Some (Inr v) \<Rightarrow> Some (snd (openAlacrittyTmux env (dirname (fsPath u)) log))
      | Some (Inl e) \<Rightarrow>
          Some (snd (openAlacrittyTmux env (dirname (fsPath u)) log)
                @ [ShowErrorMessage ''Failed to open Alacritty (is it installed?).'']))
   \<and> (\<exists>log'. activate_open dirname env plt resource activeTextEditor log = Some log' \<and>
          spawns log' = spawns log @ tried env (attempted plt (dirname (fsPath u))))
   \<and> (\<exists>log'. activate_open_alacritty dirname env resource activeTextEditor log = Some log' \<and>
          spawns log' = spawns log @ [(''alacritty'', [''--working-directory'', dirname (fsPath u)])])"
proof -
  have nf: "\<not> launch_ok not_found c" for c
    by (simp add: launch_ok_def await_spawnPromise not_found_def)
  have att: "attempted plt d = candidate_table plt d" for d
    by (simp add: attempted_def openSystemTerminal_eq spawns_attempts tried_all_fail nf)
  have a: "\<exists>log'. activate_open dirname env plt resource activeTextEditor log = Some log' \<and>
          spawns log' = spawns log @ tried env (attempted plt (dirname (fsPath u)))"
    by (simp add: activate_open_context [OF assms] openSystemTerminal_eq att spawns_append
        spawns_attempts)
  have b: "\<exists>log'. activate_open_alacritty dirname env resource activeTextEditor log = Some log' \<and>
          spawns log' = spawns log @ [(''alacritty'', [''--working-directory'', dirname (fsPath u)])]"
    by (simp add: activate_open_alacritty_context [OF assms] openAlacrittyTmux_eq
        await_spawnPromise spawns_spawnPromise spawns_append
        split: spawn_result.split error_timing.split)
  from a b activate_open_context [OF assms] activate_open_alacritty_context [OF assms]
  show ?thesis by simp
qed

theorem target_directory_is_dirname_witness:
  "activate_open parent_of (only_installed ''konsole'') ''linux''
        None (Some \<lparr>document_uri = \<lparr>fsPath = ''/home/me/projects/foo/src''\<rparr>\<rparr>) [] =
     Some
       [Spawn ''gnome-terminal'' [''--'', ''bash'', ''-lc'', ''cd \"/home/me/projects/foo\"; exec bash'']
          \<lparr>detached = True, stdio = ''ignore''\<rparr>,
        SetTimeout 200,
        Spawn ''konsole'' [''--workdir'', ''/home/me/projects/foo''] \<lparr>detached = True, stdio = ''ignore''\<rparr>,
        SetTimeout 200]
   \<and> activate_open_alacritty parent_of (only_installed ''alacritty'')
        None (Some \<lparr>document_uri = \<lparr>fsPath = ''/home/me/projects/foo/src''\<rparr>\<rparr>) [] =
     Some
       [Spawn ''alacritty'' [''--working-directory'', ''/home/me/projects/foo'']
          \<lparr>detached = True, stdio = ''ignore''\<rparr>,
        SetTimeout 200]"
proof -
  let ?u = "\<lparr>fsPath = ''/home/me/projects/foo/src''\<rparr>"
  let ?ed = "\<lparr>document_uri = ?u\<rparr>"
  have dir: "parent_of ''/home/me/projects/foo/src'' = ''/home/me/projects/foo''"
    by (simp add: parent_of_def)
  have ctx: "(None :: uri option) = Some ?u \<or>
             ((None :: uri option) = None \<and> Some ?ed = Some ?ed \<and> document_uri ?ed = ?u)"
    by simp
  have run: "openSystemTerminal (only_installed ''konsole'') ''linux'' ''/home/me/projects/foo'' [] =
     Some (True,
       [Spawn ''gnome-terminal'' [''--'', ''bash'', ''-lc'', ''cd \"/home/me/projects/foo\"; exec bash'']
          \<lparr>detached = True, stdio = ''ignore''\<rparr>,
        SetTimeout 200,
        Spawn ''konsole'' [''--workdir'', ''/home/me/projects/foo''] \<lparr>detached = True, stdio = ''ignore''\<rparr>,
        SetTimeout 200])"
    by (simp add: openSystemTerminal_def candidates_def spawnPromise_def only_installed_def
        run_callbacks_def new_attempt_def reject_def resolve_def)
  have al: "openAlacrittyTmux (only_installed ''alacritty'') ''/home/me/projects/foo'' [] =
     (\<lparr>promise = Fulfilled True, unrefd = True\<rparr>,
       [Spawn ''alacritty'' [''--working-directory'', ''/home/me/projects/foo'']
          \<lparr>detached = True, stdio = ''ignore''\<rparr>,
        SetTimeout 200])"
    by (simp add: openAlacrittyTmux_def only_installed_def
        run_callbacks_def new_attempt_def reject_def resolve_def)
  from target_directory_is_dirname
         [where dirname = parent_of and env = "only_installed ''konsole''" and plt = "''linux''"
            and log = "[]", OF ctx]
  have a: "activate_open parent_of (only_installed ''konsole'') ''linux'' None (Some ?ed) [] =
     Some
       [Spawn ''gnome-terminal'' [''--'', ''bash'', ''-lc'', ''cd \"/home/me/projects/foo\"; exec bash'']
          \<lparr>detached = True, stdio = ''ignore''\<rparr>,
        SetTimeout 200,
        Spawn ''konsole'' [''--workdir'', ''/home/me/projects/foo''] \<lparr>detached = True, stdio = ''ignore''\<rparr>,
        SetTimeout 200]"
    by (simp add: dir run)
  from target_directory_is_dirname
         [where dirname = parent_of and env = "only_installed ''alacritty''" and plt = "''linux''"
            and log = "[]", OF ctx]
  have b: "activate_open_alacritty parent_of (only_installed ''alacritty'') None (Some ?ed) [] =
     Some
       [Spawn ''alacritty'' [''--working-directory'', ''/home/me/projects/foo'']
          \<lparr>detached = True, stdio = ''ignore''\<rparr>,
        SetTimeout 200]"
    by (simp add: dir al)
  from a b show ?thesis by simp
qed

text \<open>
  Claim C7. In the single-candidate variant, an invocation with a directory context makes
  exactly one spawn call, \<^verbatim>\<open>alacritty --working-directory\<close> with the target directory.
  When that attempt fails, the error message that names Alacritty is shown. In no case is
  an integrated terminal created or another program spawned.
\<close>

theorem minimal_variant_single_candidate:
  assumes "resource = Some u \<or> (resource = None \<and> activeTextEditor = Some editor \<and> document_uri editor = u)"
  shows "\<exists>log'. activate_open_alacritty dirname env resource activeTextEditor log = Some log' \<and>
     spawns log' = spawns log @ [(''alacritty'', [''--working-directory'', dirname (fsPath u)])] \<and>
     integrated_terminals log' = integrated_terminals log \<and>
     error_messages log' = error_messages log @
       (if alacritty_ok env (dirname (fsPath u)) then []
        else [''Failed to open Alacritty (is it installed?).''])"
  by (simp add: activate_open_alacritty_context [OF assms] openAlacrittyTmux_eq alacritty_ok_eq
        launch_ok_def await_spawnPromise spawns_spawnPromise spawns_append snd_spawnPromise
        error_messages_append integrated_terminals_append
        split: spawn_result.split error_timing.split)

theorem minimal_variant_single_candidate_witness:
  "\<not> alacritty_ok not_found ''/home/me/projects/foo/src''
   \<and> (\<exists>log'. activate_open_alacritty parent_of not_found
               (Some \<lparr>fsPath = ''/home/me/projects/foo/src/index.js''\<rparr>) None [] = Some log' \<and>
        spawns log' = [(''alacritty'', [''--working-directory'', ''/home/me/projects/foo/src''])] \<and>
        integrated_terminals log' = [] \<and>
        error_messages log' = [''Failed to open Alacritty (is it installed?).''])"
proof -
  let ?u = "\<lparr>fsPath = ''/home/me/projects/foo/src/index.js''\<rparr>"
  let ?ed = "\<lparr>document_uri = ?u\<rparr>"
  have ctx: "Some ?u = Some ?u \<or> (Some ?u = None \<and> None = Some ?ed \<and> document_uri ?ed = ?u)"
    by simp
  have bad: "\<not> alacritty_ok not_found ''/home/me/projects/foo/src''"
    by (simp add: alacritty_ok_def openAlacrittyTmux_def not_found_def
        run_callbacks_def new_attempt_def reject_def resolve_def)
  from minimal_variant_single_candidate
         [where dirname = parent_of and env = not_found and log = "[]", OF ctx] bad
  show ?thesis by (simp add: parent_of_example)
qed

end
